theory Spec2Isabelle
  imports Complex_Main "HOL-Library.Sublist"
begin

section \<open>JavaScript values used by the page and the route\<close>

subsection \<open>Numbers\<close>

text \<open>
  A JavaScript Number is an IEEE 754 binary64 value. Every finite binary64 value is a
  rational number, so \<open>Fin r\<close> carries the exact value \<open>r\<close>; \<open>Fin 0\<close> is \<open>+0\<close> and \<open>NegZero\<close>
  is \<open>-0\<close>. The operations below are the ones the page applies to the fields of a result:
  \<open>*\<close>, \<open>toFixed\<close> and the conversion to a string inside a template literal. They follow the
  definitions of ECMAScript (Number::multiply, Number.prototype.toFixed, Number::toString),
  which are stated on the exact value.
\<close>

datatype number = NaN | PosInf | NegInf | NegZero | Fin rat

definition pow2 :: "int \<Rightarrow> rat" where
  "pow2 e = (if 0 \<le> e then of_int (2 ^ nat e) else 1 / of_int (2 ^ nat (- e)))"

definition pow10 :: "int \<Rightarrow> rat" where
  "pow10 e = (if 0 \<le> e then of_int (10 ^ nat e) else 1 / of_int (10 ^ nat (- e)))"

function bit_count :: "int \<Rightarrow> int" where
  "bit_count n = (if n \<le> 0 then 0 else 1 + bit_count (n div 2))"
  by pat_completeness auto
termination
  by (relation "measure nat") auto

function digit_count :: "int \<Rightarrow> int" where
  "digit_count n = (if n < 10 then 1 else 1 + digit_count (n div 10))"
  by pat_completeness auto
termination
  by (relation "measure nat") auto

text \<open>The exponent \<open>e\<close> with \<open>b ^ e \<le> q < b ^ (e + 1)\<close> of a positive \<open>q\<close>, from the length of
  the integer part of \<open>q\<close> or of \<open>1 / q\<close> (the length of \<open>\<lfloor>1 / q\<rfloor>\<close> is one too large when \<open>q\<close> is a
  power of \<open>b\<close>).\<close>

definition magnitude :: "(int \<Rightarrow> rat) \<Rightarrow> (int \<Rightarrow> int) \<Rightarrow> rat \<Rightarrow> int" where
  "magnitude pow len q =
     (let e = (if 1 \<le> q then len \<lfloor>q\<rfloor> - 1 else - len \<lfloor>1 / q\<rfloor>)
      in if pow (e + 1) \<le> q then e + 1 else e)"

text \<open>The binary exponent of a positive value, not below the exponent -1022 of the
  subnormal numbers.\<close>

definition binade :: "rat \<Rightarrow> int" where
  "binade a = max (- 1022) (magnitude pow2 bit_count a)"

definition round_half_even :: "rat \<Rightarrow> int" where
  "round_half_even m =
     (let f = \<lfloor>m\<rfloor>; d = m - of_int f
      in if d < 1 / 2 then f else if 1 / 2 < d then f + 1 else if even f then f else f + 1)"

text \<open>The Number value of a real (roundTiesToEven to 53 significant bits; \<open>2 ^ 1024\<close> and
  above become an infinity).\<close>

definition round_double :: "rat \<Rightarrow> number" where
  "round_double q =
     (if q = 0 then Fin 0
      else let a = \<bar>q\<bar>; u = pow2 (binade a - 52); r = of_int (round_half_even (a / u)) * u
           in if r = 0 then (if q < 0 then NegZero else Fin 0)
              else if 1024 \<le> binade r then (if q < 0 then NegInf else PosInf)
              else Fin (if q < 0 then - r else r))"

text \<open>The value of a decimal literal \<open>m\<close> times ten to the \<open>e\<close>, as in \<open>48.8566\<close> (JavaScript
  source and JSON text read a number the same way).\<close>

definition num_lit :: "int \<Rightarrow> int \<Rightarrow> number" where
  "num_lit m e = round_double (of_int m * pow10 e)"

definition is_inf :: "number \<Rightarrow> bool" where
  "is_inf x = (x = PosInf \<or> x = NegInf)"

definition is_zero :: "number \<Rightarrow> bool" where
  "is_zero x = (x = NegZero \<or> x = Fin 0)"

definition negative :: "number \<Rightarrow> bool" where
  "negative x = (case x of NegInf \<Rightarrow> True | NegZero \<Rightarrow> True | Fin r \<Rightarrow> r < 0 | _ \<Rightarrow> False)"

definition js_mul :: "number \<Rightarrow> number \<Rightarrow> number" where
  "js_mul x y =
     (if x = NaN \<or> y = NaN then NaN
      else if (is_inf x \<and> is_zero y) \<or> (is_zero x \<and> is_inf y) then NaN
      else if is_inf x \<or> is_inf y then (if negative x = negative y then PosInf else NegInf)
      else if is_zero x \<or> is_zero y then (if negative x = negative y then Fin 0 else NegZero)
      else (case (x, y) of (Fin a, Fin b) \<Rightarrow> round_double (a * b) | _ \<Rightarrow> NaN))"

subsection \<open>Decimal digits\<close>

function digits :: "int \<Rightarrow> string" where
  "digits n = (if n < 10 then [''0123456789'' ! nat n]
               else digits (n div 10) @ [''0123456789'' ! nat (n mod 10)])"
  by pat_completeness auto
termination
  by (relation "measure nat") auto

definition zeros :: "nat \<Rightarrow> string" where
  "zeros n = replicate n (CHR ''0'')"

text \<open>Number::toString, step 5: the shortest digit string \<open>s\<close> (of \<open>k\<close> digits, scaled by
  \<open>10 ^ (n - k)\<close>) that reads back as the same Number. For a given \<open>k\<close> only the two
  multiples of \<open>10 ^ (n - k)\<close> around the value can read back as it, with \<open>n\<close> the number of
  integer digits of the value or one more.\<close>

definition int_digits :: "rat \<Rightarrow> int" where
  "int_digits r = magnitude pow10 digit_count r + 1"

definition around :: "rat \<Rightarrow> int \<Rightarrow> int \<Rightarrow> (int \<times> int \<times> int) list" where
  "around r k n = [(n, k, \<lfloor>r / pow10 (n - k)\<rfloor>), (n, k, \<lfloor>r / pow10 (n - k)\<rfloor> + 1)]"

definition reads_back :: "rat \<Rightarrow> int \<times> int \<times> int \<Rightarrow> bool" where
  "reads_back r c =
     (case c of (n, k, s) \<Rightarrow>
        pow10 (k - 1) \<le> of_int s \<and> of_int s < pow10 k \<and> round_double (of_int s * pow10 (n - k)) = Fin r)"

definition candidates :: "rat \<Rightarrow> int \<Rightarrow> (int \<times> int \<times> int) list" where
  "candidates r k = filter (reads_back r) (around r k (int_digits r) @ around r k (int_digits r + 1))"

definition distance :: "rat \<Rightarrow> int \<times> int \<times> int \<Rightarrow> rat" where
  "distance r c = (case c of (n, k, s) \<Rightarrow> \<bar>of_int s * pow10 (n - k) - r\<bar>)"

text \<open>Among several digit strings of the same length the one closest to the value is taken,
  and the even one of two equally close.\<close>

definition closer :: "rat \<Rightarrow> int \<times> int \<times> int \<Rightarrow> int \<times> int \<times> int \<Rightarrow> int \<times> int \<times> int" where
  "closer r c d =
     (if distance r d < distance r c \<or> (distance r d = distance r c \<and> even (snd (snd d)))
      then d else c)"

text \<open>The search over \<open>k = 1, 2, ...\<close>; at \<open>k = 17\<close> the decimal of seventeen digits nearest to
  the value is taken, since seventeen significant digits always read back as the same
  binary64 value.\<close>

fun shortest :: "nat \<Rightarrow> int \<Rightarrow> rat \<Rightarrow> int \<times> int \<times> int" where
  "shortest 0 k r = (int_digits r, k, round_half_even (r / pow10 (int_digits r - k)))"
| "shortest (Suc fuel) k r =
     (case candidates r k of
        [] \<Rightarrow> shortest fuel (k + 1) r
      | c # cs \<Rightarrow> foldl (closer r) c cs)"

definition exponent_part :: "int \<Rightarrow> string" where
  "exponent_part n = ''e'' @ (if n - 1 < 0 then ''-'' else ''+'') @ digits \<bar>n - 1\<bar>"

text \<open>Number::toString, steps 6 to 11, for a positive finite value.\<close>

definition positive_to_string :: "rat \<Rightarrow> string" where
  "positive_to_string r =
     (case shortest 16 1 r of (n, k, s) \<Rightarrow>
        if - 5 \<le> n \<and> n \<le> 21 then
          (if k \<le> n then digits s @ zeros (nat (n - k))
           else if 0 < n then take (nat n) (digits s) @ ''.'' @ drop (nat n) (digits s)
           else ''0.'' @ zeros (nat (- n)) @ digits s)
        else if k = 1 then digits s @ exponent_part n
        else take 1 (digits s) @ ''.'' @ drop 1 (digits s) @ exponent_part n)"

definition number_to_string :: "number \<Rightarrow> string" where
  "number_to_string x =
     (case x of
        NaN \<Rightarrow> ''NaN''
      | PosInf \<Rightarrow> ''Infinity''
      | NegInf \<Rightarrow> ''-Infinity''
      | NegZero \<Rightarrow> ''0''
      | Fin r \<Rightarrow> if r = 0 then ''0''
                 else if r < 0 then ''-'' @ positive_to_string (- r)
                 else positive_to_string r)"

text \<open>Number.prototype.toFixed(f) for \<open>0 \<le> f \<le> 100\<close> (the page calls it with 5 and 1): the
  integer \<open>n\<close> with \<open>n / 10 ^ f\<close> closest to the value, the larger of two, written with \<open>f\<close>
  digits after the point.\<close>

definition fixed_digits :: "nat \<Rightarrow> rat \<Rightarrow> string" where
  "fixed_digits f r =
     (if pow10 21 \<le> r then positive_to_string r
      else let n = \<lfloor>r * 10 ^ f + 1 / 2\<rfloor>;
               m = digits n;
               m = (if length m \<le> f then zeros (f + 1 - length m) @ m else m);
               k = length m
           in if f = 0 then m else take (k - f) m @ ''.'' @ drop (k - f) m)"

definition toFixed :: "nat \<Rightarrow> number \<Rightarrow> string" where
  "toFixed f x =
     (case x of
        NaN \<Rightarrow> ''NaN''
      | PosInf \<Rightarrow> ''Infinity''
      | NegInf \<Rightarrow> ''-Infinity''
      | NegZero \<Rightarrow> fixed_digits f 0
      | Fin r \<Rightarrow> if r < 0 then ''-'' @ fixed_digits f (- r) else fixed_digits f r)"

subsection \<open>JSON values\<close>

text \<open>
  What \<open>response.json()\<close> yields: the value of a JSON text. \<open>JNull\<close> is \<open>null\<close>; an object is the
  list of its members. \<open>undefined\<close>, which JSON does not have, is \<open>None\<close> where a property is read.
\<close>

datatype json =
    JNull
  | JBool bool
  | JNum number
  | JStr string
  | JArr "json list"
  | JObj "(string \<times> json) list"

text \<open>ToBoolean, as \<open>!x\<close>, \<open>x || y\<close> and \<open>x && y\<close> apply it.\<close>

fun truthy :: "json \<Rightarrow> bool" where
  "truthy JNull = False"
| "truthy (JBool b) = b"
| "truthy (JNum x) = (x \<noteq> NaN \<and> \<not> is_zero x)"
| "truthy (JStr s) = (s \<noteq> [])"
| "truthy (JArr vs) = True"
| "truthy (JObj fs) = True"

fun join :: "string \<Rightarrow> string list \<Rightarrow> string" where
  "join sep [] = []"
| "join sep [x] = x"
| "join sep (x # y # ys) = x @ sep @ join sep (y # ys)"

text \<open>The message of a thrown error stands for the error: a computation that may throw
  returns \<open>Inl message\<close> or \<open>Inr value\<close>. The wording of the messages the runtime itself throws
  with (a TypeError, a RangeError) is the runtime's; no statement below depends on it.\<close>

type_synonym 'a throws = "string + 'a"

fun collect :: "'a throws list \<Rightarrow> 'a list throws" where
  "collect [] = Inr []"
| "collect (Inl e # xs) = Inl e"
| "collect (Inr x # xs) = (case collect xs of Inl e \<Rightarrow> Inl e | Inr ys \<Rightarrow> Inr (x # ys))"

text \<open>ToString, as \<open>new Error(x)\<close> applies it to its argument. An array is joined with commas,
  a \<open>null\<close> element being the empty string. An object is \<open>[object Object]\<close>, unless it has a
  member \<open>toString\<close> of its own: a JSON value is not callable, so the conversion throws a
  TypeError.\<close>

fun to_string :: "json \<Rightarrow> string throws" where
  "to_string JNull = Inr ''null''"
| "to_string (JBool b) = Inr (if b then ''true'' else ''false'')"
| "to_string (JNum x) = Inr (number_to_string x)"
| "to_string (JStr s) = Inr s"
| "to_string (JArr vs) =
     (case collect (map (\<lambda>v. if v = JNull then Inr [] else to_string v) vs) of
        Inl e \<Rightarrow> Inl e
      | Inr ss \<Rightarrow> Inr (join '','' ss))"
| "to_string (JObj fs) =
     (if map_of fs ''toString'' = None then Inr ''[object Object]''
      else Inl ''Cannot convert object to primitive value'')"

text \<open>Reading one of the properties \<open>error\<close>, \<open>lat\<close>, \<open>lon\<close>, \<open>confidence\<close>: of \<open>null\<close> it throws a
  TypeError, of an object it is the member or \<open>undefined\<close>, and no array, string, number or
  boolean has a property of these names.\<close>

definition get_prop :: "json \<Rightarrow> string \<Rightarrow> json option throws" where
  "get_prop v name =
     (case v of
        JNull \<Rightarrow> Inl (''Cannot read properties of null (reading '' @ [CHR 0x27] @ name @ [CHR 0x27] @ '')'')
      | JObj fs \<Rightarrow> Inr (map_of fs name)
      | _ \<Rightarrow> Inr None)"

text \<open>\<open>JSON.parse(JSON.stringify(v))\<close>, the value a JSON body has for its reader: an infinity
  is written as \<open>null\<close> and \<open>-0\<close> as \<open>0\<close>; every other number is written with the digits of
  \<open>number_to_string\<close>, which read back as the same number.\<close>

fun wire :: "json \<Rightarrow> json" where
  "wire (JNum x) = (if x = NaN \<or> is_inf x then JNull else if x = NegZero then JNum (Fin 0) else JNum x)"
| "wire (JArr vs) = JArr (map wire vs)"
| "wire (JObj fs) = JObj (map (\<lambda>(k, v). (k, wire v)) fs)"
| "wire v = v"

text \<open>\<open>response.ok\<close>\<close>

definition ok :: "nat \<Rightarrow> bool" where
  "ok status = (200 \<le> status \<and> status \<le> 299)"

text \<open>A settled promise of \<open>fetch\<close>: rejected with an error, or resolved with a response.\<close>

datatype 'r fetched = Rejected string | Resolved 'r

section \<open>The upload proxy: route handler \<open>POST\<close>\<close>

record file_obj =
  file_name :: string
  file_type :: string
  file_bytes :: "nat list"

text \<open>A value of a form field is a file or a string.\<close>

datatype entry = FileEntry file_obj | TextEntry string

type_synonym form_data = "(string \<times> entry) list"

text \<open>\<open>formData.get(name)\<close>: the first value of that name, or \<open>null\<close>.\<close>

definition form_get :: "form_data \<Rightarrow> string \<Rightarrow> entry option" where
  "form_get formData name = map_of formData name"

text \<open>\<open>!file\<close> on a value \<open>formData.get\<close> returned: the empty string is falsy, a \<open>File\<close>
  object and a non-empty string are not (and \<open>null\<close>, the case of no value, is falsy).\<close>

fun falsy :: "entry \<Rightarrow> bool" where
  "falsy (TextEntry t) = (t = [])"
| "falsy (FileEntry f) = False"

text \<open>The response of the backend as the handler reads it: its status, what
  \<open>response.text()\<close> yields and what \<open>response.json()\<close> yields.\<close>

record upstream =
  up_status :: nat
  up_text :: "string throws"
  up_json :: "json throws"

text \<open>The response the handler returns: status and JSON body.\<close>

record reply =
  status :: nat
  body :: json

text \<open>\<open>NextResponse.json(body, {status})\<close> builds a \<open>Response\<close>, whose constructor throws a
  RangeError for a status outside 200..599 and a TypeError for a body with a null-body
  status (of these, 204, 205 and 304 lie in that range).\<close>

definition NextResponse_json :: "json \<Rightarrow> nat \<Rightarrow> reply throws" where
  "NextResponse_json data st =
     (if st < 200 \<or> 599 < st then Inl ''init[\"status\"] must be in the range of 200 to 599, inclusive.''
      else if st \<in> {204, 205, 304}
        then Inl (''Response constructor: Invalid response status code '' @ digits (int st))
      else Inr \<lparr>status = st, body = wire data\<rparr>)"

type_synonym environment = "string \<rightharpoonup> string"

text \<open>The template literal \<open>`${geoApiUrl}/geolocate`\<close>; an unset variable reads as
  \<open>undefined\<close>.\<close>

definition geolocate_url :: "string option \<Rightarrow> string" where
  "geolocate_url geoApiUrl = (case geoApiUrl of None \<Rightarrow> ''undefined'' | Some u \<Rightarrow> u) @ ''/geolocate''"

text \<open>What handling one request does: the response returned, and the calls of \<open>fetch\<close> it
  made (URL and multipart body; the method is always POST).\<close>

record handled =
  returned :: reply
  fetches :: "(string \<times> form_data) list"

type_synonym backend = "string \<Rightarrow> form_data \<Rightarrow> upstream fetched"

text \<open>The response of line 9.\<close>

definition no_file_uploaded :: "reply throws" where
  "no_file_uploaded = NextResponse_json (JObj [(''error'', JStr ''No file uploaded'')]) 400"

text \<open>The body of the \<open>try\<close> block (lines 5 to 32). \<open>request\<close> is what \<open>request.formData()\<close>
  yields, \<open>env\<close> is \<open>process.env\<close> at the time of the request, \<open>fetch\<close> is the network.\<close>

definition POST_try :: "environment \<Rightarrow> backend \<Rightarrow> form_data throws \<Rightarrow> reply throws \<times> (string \<times> form_data) list" where
  "POST_try env fetch request =
     (case request of
        Inl e \<Rightarrow> (Inl e, [])
      | Inr formData \<Rightarrow>
          (case form_get formData ''file'' of
             None \<Rightarrow> (no_file_uploaded, [])
           | Some file \<Rightarrow>
               if falsy file then (no_file_uploaded, [])
               else
                 (let apiFormData = [(''file'', file)];
                      geoApiUrl = env ''GEO_API'';
                      call = (geolocate_url geoApiUrl, apiFormData)
                  in case fetch (geolocate_url geoApiUrl) apiFormData of
                       Rejected e \<Rightarrow> (Inl e, [call])
                     | Resolved response \<Rightarrow>
                         if \<not> ok (up_status response) then
                           (case up_text response of
                              Inl e \<Rightarrow> (Inl e, [call])
                            | Inr errorText \<Rightarrow>
                                (NextResponse_json (JObj [(''error'', JStr (''GeoAPI error: '' @ errorText))])
                                   (up_status response), [call]))
                         else
                           (case up_json response of
                              Inl e \<Rightarrow> (Inl e, [call])
                            | Inr data \<Rightarrow> (NextResponse_json data 200, [call])))))"

text \<open>The handler: the \<open>try\<close> block and its \<open>catch\<close> (lines 34 to 40).\<close>

definition POST :: "environment \<Rightarrow> backend \<Rightarrow> form_data throws \<Rightarrow> handled" where
  "POST env fetch request =
     (case POST_try env fetch request of
        (Inr r, calls) \<Rightarrow> \<lparr>returned = r, fetches = calls\<rparr>
      | (Inl message, calls) \<Rightarrow>
          \<lparr>returned = \<lparr>status = 500,
                        body = JObj [(''error'', JStr ''Internal Server Error''), (''details'', JStr message)]\<rparr>,
           fetches = calls\<rparr>)"

text \<open>The server process: it handles the requests one after the other, and between two of
  them a variable of its environment may be set or unset.\<close>

datatype server_event = Setenv string "string option" | Request "form_data throws"

fun serve :: "environment \<Rightarrow> backend \<Rightarrow> server_event list \<Rightarrow> handled list" where
  "serve env fetch [] = []"
| "serve env fetch (Setenv name v # es) = serve (env(name := v)) fetch es"
| "serve env fetch (Request r # es) = POST env fetch r # serve env fetch es"

section \<open>The page: component \<open>GeoPage\<close>\<close>

text \<open>
  The five state variables of the component (lines 13 to 17); \<open>result\<close> holds whatever
  \<open>res.json()\<close> yielded, \<open>JNull\<close> being \<open>null\<close>. \<open>pending\<close> is not a variable of the component: it
  lists the requests \<open>fetch\<close> has sent whose promise has not settled yet.
\<close>

record page =
  imageFile :: "file_obj option"
  previewUrl :: "string option"
  loading :: bool
  result :: json
  error :: "string option"
  pending :: "form_data list"

definition initial :: page where
  "initial = \<lparr>imageFile = None, previewUrl = None, loading = False, result = JNull,
              error = None, pending = []\<rparr>"

text \<open>\<open>handleFileSelection\<close> (lines 42 to 47); \<open>url\<close> is what \<open>URL.createObjectURL(file)\<close>
  returns.\<close>

definition handleFileSelection :: "file_obj \<Rightarrow> string \<Rightarrow> page \<Rightarrow> page" where
  "handleFileSelection f url s = s\<lparr>error := None, result := JNull, imageFile := Some f, previewUrl := Some url\<rparr>"

text \<open>\<open>handleGlobalPaste\<close> (lines 30 to 37): \<open>files\<close> is \<open>e.clipboardData?.files\<close>.\<close>

definition handleGlobalPaste :: "file_obj list option \<Rightarrow> string \<Rightarrow> page \<Rightarrow> page" where
  "handleGlobalPaste files url s =
     (case files of
        Some (f # fs) \<Rightarrow> if prefix ''image/'' (file_type f) then handleFileSelection f url s else s
      | _ \<Rightarrow> s)"

text \<open>\<open>onFileChange\<close> (lines 51 to 55): \<open>files\<close> is \<open>e.target.files\<close>.\<close>

definition onFileChange :: "file_obj list option \<Rightarrow> string \<Rightarrow> page \<Rightarrow> page" where
  "onFileChange files url s = (case files of Some (f # fs) \<Rightarrow> handleFileSelection f url s | _ \<Rightarrow> s)"

text \<open>A clipboard item: its representations, each a media type with what
  \<open>item.getType\<close> yields for it (the bytes of the blob).\<close>

type_synonym clipboard_item = "(string \<times> nat list throws) list"

definition clipboard_denied :: "page \<Rightarrow> page" where
  "clipboard_denied s = s\<lparr>error := Some ''Clipboard access denied. Try Ctrl+V.''\<rparr>"

text \<open>The loop of \<open>onPasteClick\<close> (lines 60 to 69) and the \<open>catch\<close> around it.\<close>

fun paste_items :: "clipboard_item list \<Rightarrow> string \<Rightarrow> page \<Rightarrow> page" where
  "paste_items [] url s = s\<lparr>error := Some ''No image found in clipboard.''\<rparr>"
| "paste_items (item # items) url s =
     (case find (\<lambda>t. prefix ''image/'' (fst t)) item of
        None \<Rightarrow> paste_items items url s
      | Some (imageType, Inl e) \<Rightarrow> clipboard_denied s
      | Some (imageType, Inr blob) \<Rightarrow>
          handleFileSelection \<lparr>file_name = ''pasted-image.png'', file_type = imageType, file_bytes = blob\<rparr> url s)"

text \<open>\<open>onPasteClick\<close> (lines 57 to 74), from what \<open>navigator.clipboard.read()\<close> yields. The
  handler reads no state variable and calls setters only once all its promises have
  settled, so it acts on the state of that moment.\<close>

definition onPasteClick :: "clipboard_item list throws \<Rightarrow> string \<Rightarrow> page \<Rightarrow> page" where
  "onPasteClick clipboardItems url s =
     (case clipboardItems of Inl e \<Rightarrow> clipboard_denied s | Inr items \<Rightarrow> paste_items items url s)"

text \<open>\<open>handleLocate\<close> up to its first \<open>await\<close> (lines 76 to 90). The function is created anew by
  every render and reads \<open>imageFile\<close> as that render had it (\<open>shown\<close>); its setters act on the
  latest state \<open>s\<close>. It does not read \<open>loading\<close>.\<close>

definition handleLocate :: "page \<Rightarrow> page \<Rightarrow> page" where
  "handleLocate shown s =
     (case imageFile shown of
        None \<Rightarrow> s
      | Some f \<Rightarrow> s\<lparr>loading := True, error := None, result := JNull,
                     pending := pending s @ [[(''file'', FileEntry f)]]\<rparr>)"

text \<open>The response \<open>fetch\<close> resolved with, as \<open>handleLocate\<close> reads it: its status and what
  \<open>res.json()\<close> yields.\<close>

record response =
  res_status :: nat
  res_json :: "json throws"

text \<open>The rest of the \<open>try\<close> block (lines 87 to 98): \<open>Inl\<close> the message of the error it
  throws (the one of line 94, or one thrown while line 93 or 94 is evaluated), \<open>Inr\<close> the data
  it passes to \<open>setResult\<close>.\<close>

definition handleLocate_try :: "response fetched \<Rightarrow> json throws" where
  "handleLocate_try r =
     (case r of
        Rejected e \<Rightarrow> Inl e
      | Resolved res \<Rightarrow>
          if \<not> ok (res_status res) then
            (let errData = (case res_json res of Inl e \<Rightarrow> JObj [] | Inr v \<Rightarrow> v)
             in case get_prop errData ''error'' of
                  Inl e \<Rightarrow> Inl e
                | Inr None \<Rightarrow> Inl (''Server Error: '' @ digits (int (res_status res)))
                | Inr (Some v) \<Rightarrow>
                    if truthy v then (case to_string v of Inl e \<Rightarrow> Inl e | Inr message \<Rightarrow> Inl message)
                    else Inl (''Server Error: '' @ digits (int (res_status res))))
          else res_json res)"

text \<open>\<open>handleLocate\<close> after the \<open>await\<close>: the \<open>try\<close> block, \<open>catch\<close> and \<open>finally\<close> (lines 97 to
  103).\<close>

definition handleLocate_settled :: "response fetched \<Rightarrow> page \<Rightarrow> page" where
  "handleLocate_settled r s =
     (case handleLocate_try r of
        Inr data \<Rightarrow> s\<lparr>result := data, loading := False\<rparr>
      | Inl message \<Rightarrow>
          s\<lparr>error := Some (if message = [] then ''Something went wrong.'' else message), loading := False\<rparr>)"

text \<open>
  The events of the page: a file chosen in the file input, a paste on the window, a click
  on Paste once the clipboard has answered, a click on the button "Locate Image", and the
  settling of the oldest pending request.
\<close>

datatype event =
    FileChange "file_obj list option" string
  | GlobalPaste "file_obj list option" string
  | PasteClick "clipboard_item list throws" string
  | LocateClick
  | Settled "response fetched"

text \<open>
  An event on a page whose last committed render is \<open>shown\<close> and whose latest state is \<open>s\<close>.
  The handlers of the first three events and the continuation of \<open>handleLocate\<close> only call
  setters. The button is part of the render: it has \<open>disabled={!imageFile || loading}\<close> with
  the values of that render (line 180), a disabled button does not call its \<open>onClick\<close>, and
  the \<open>onClick\<close> of an enabled one is the \<open>handleLocate\<close> of that render. State that has been set
  and not yet rendered does not disable the button.
\<close>

fun dispatch :: "page \<Rightarrow> page \<Rightarrow> event \<Rightarrow> page" where
  "dispatch shown s (FileChange files url) = onFileChange files url s"
| "dispatch shown s (GlobalPaste files url) = handleGlobalPaste files url s"
| "dispatch shown s (PasteClick clipboardItems url) = onPasteClick clipboardItems url s"
| "dispatch shown s LocateClick =
     (if imageFile shown = None \<or> loading shown then s else handleLocate shown s)"
| "dispatch shown s (Settled r) =
     (case pending s of [] \<Rightarrow> s | request # rest \<Rightarrow> handleLocate_settled r (s\<lparr>pending := rest\<rparr>))"

text \<open>
  The page between events: React commits a render of the latest state at some moment after
  an event, not within it. \<open>Commit\<close> is that moment; several events dispatched before it (two
  calls of \<open>click()\<close> by one script, say) all meet the same render.
\<close>

datatype action = Dispatch event | Commit

record display =
  rendered :: page
  latest :: page

fun act :: "display \<Rightarrow> action \<Rightarrow> display" where
  "act d (Dispatch e) = d\<lparr>latest := dispatch (rendered d) (latest d) e\<rparr>"
| "act d Commit = d\<lparr>rendered := latest d\<rparr>"

definition play :: "action list \<Rightarrow> display" where
  "play as = foldl act \<lparr>rendered = initial, latest = initial\<rparr> as"

text \<open>
  An event on a page that has rendered its latest state, and a history in which every event
  meets such a page: what the browser's own events do, each delivered in a task of its own,
  after which React commits.
\<close>

definition step :: "page \<Rightarrow> event \<Rightarrow> page" where
  "step s e = dispatch s s e"

definition run :: "event list \<Rightarrow> page" where
  "run evs = foldl step initial evs"

subsection \<open>What the page shows\<close>

text \<open>\<open>{error && ...}\<close> (lines 201 to 205): the banner with the text of \<open>error\<close>.\<close>

definition error_banner :: "page \<Rightarrow> string option" where
  "error_banner s = (case error s of None \<Rightarrow> None | Some e \<Rightarrow> if e = [] then None else Some e)"

text \<open>\<open>{result && ...}\<close> (line 211): whether the results section is rendered.\<close>

definition result_shown :: "page \<Rightarrow> bool" where
  "result_shown s = truthy (result s)"

text \<open>\<open>interface GeoResult\<close> (lines 6 to 10).\<close>

record GeoResult =
  lat :: number
  lon :: number
  confidence :: number

text \<open>The texts of the results section (lines 224, 228, 238, 242 and 248).\<close>

record panel =
  latitude :: string
  longitude :: string
  bar_width :: string
  confidence_text :: string
  map_href :: string

definition result_panel :: "GeoResult \<Rightarrow> panel" where
  "result_panel r =
     \<lparr>latitude = toFixed 5 (lat r),
      longitude = toFixed 5 (lon r),
      bar_width = number_to_string (js_mul (confidence r) (Fin 100)) @ ''%'',
      confidence_text = toFixed 1 (js_mul (confidence r) (Fin 100)) @ ''%'',
      map_href = ''https://www.google.com/maps/search/?api=1&query=''
                 @ number_to_string (lat r) @ '','' @ number_to_string (lon r)\<rparr>"

text \<open>A field of the result when it is a Number.\<close>

definition number_field :: "json \<Rightarrow> string \<Rightarrow> number option" where
  "number_field v name = (case get_prop v name of Inr (Some (JNum x)) \<Rightarrow> Some x | _ \<Rightarrow> None)"

text \<open>The results section (lines 211 to 257). \<open>result.lat.toFixed(5)\<close> and
  \<open>result.lon.toFixed(5)\<close> throw a TypeError unless the field is a Number, since nothing else
  a JSON body can hold has a callable \<open>toFixed\<close>: rendering fails (\<open>Throws\<close>). A \<open>confidence\<close> that
  is not a Number is coerced to one by \<open>*\<close>; that coercion is not followed here (\<open>Coerced\<close>).\<close>

datatype section_view = Hidden | Panel panel | Throws | Coerced

definition result_section :: "page \<Rightarrow> section_view" where
  "result_section s =
     (if \<not> result_shown s then Hidden
      else case number_field (result s) ''lat'' of
             None \<Rightarrow> Throws
           | Some a \<Rightarrow>
               (case number_field (result s) ''lon'' of
                  None \<Rightarrow> Throws
                | Some b \<Rightarrow>
                    (case number_field (result s) ''confidence'' of
                       None \<Rightarrow> Coerced
                     | Some c \<Rightarrow> Panel (result_panel \<lparr>lat = a, lon = b, confidence = c\<rparr>))))"

section \<open>The page behind the proxy\<close>

text \<open>The request of the page answered by the route handler: the form arrives as the
  handler's \<open>request.formData()\<close>, and the handler's response is what \<open>fetch\<close> resolves with,
  its JSON body read by \<open>res.json()\<close>.\<close>

definition via_proxy :: "environment \<Rightarrow> backend \<Rightarrow> form_data \<Rightarrow> response fetched" where
  "via_proxy env fetch form =
     (let r = returned (POST env fetch (Inr form))
      in Resolved \<lparr>res_status = status r, res_json = Inr (body r)\<rparr>)"

text \<open>A click on "Locate Image" and the settling of the request it sent, answered by the
  route handler.\<close>

definition locate_via_proxy :: "environment \<Rightarrow> backend \<Rightarrow> page \<Rightarrow> page" where
  "locate_via_proxy env fetch s =
     (let s1 = step s LocateClick
      in case pending s1 of [] \<Rightarrow> s1 | form # rest \<Rightarrow> step s1 (Settled (via_proxy env fetch form)))"

text \<open>A backend that answers every request with the same response, and one that cannot be
  reached.\<close>

definition replying :: "upstream \<Rightarrow> backend" where
  "replying r url form = Resolved r"

definition unreachable :: "string \<Rightarrow> backend" where
  "unreachable e url form = Rejected e"

section \<open>Notions of the specification\<close>

text \<open>The four request states of the specification, read off the state variables.\<close>

datatype request_state = Idle | Loading | Success json | Error string

fun holds :: "request_state \<Rightarrow> page \<Rightarrow> bool" where
  "holds Idle s = (\<not> loading s \<and> result s = JNull \<and> error s = None)"
| "holds Loading s = loading s"
| "holds (Success r) s = (r \<noteq> JNull \<and> result s = r)"
| "holds (Error m) s = (error s = Some m)"

text \<open>A click on Paste that ends in \<open>setError\<close>: the clipboard could not be read, it holds no
  image, or the image could not be read.\<close>

fun pastes_image :: "clipboard_item list \<Rightarrow> bool" where
  "pastes_image [] = False"
| "pastes_image (item # items) =
     (case find (\<lambda>t. prefix ''image/'' (fst t)) item of
        None \<Rightarrow> pastes_image items
      | Some (imageType, Inl e) \<Rightarrow> False
      | Some (imageType, Inr blob) \<Rightarrow> True)"

fun failed_paste :: "event \<Rightarrow> bool" where
  "failed_paste (PasteClick (Inl e) url) = True"
| "failed_paste (PasteClick (Inr items) url) = (\<not> pastes_image items)"
| "failed_paste e = False"

text \<open>An event of the server that leaves the variable \<open>GEO_API\<close> as it is.\<close>

fun keeps_GEO_API :: "server_event \<Rightarrow> bool" where
  "keeps_GEO_API (Setenv name v) = (name \<noteq> ''GEO_API'')"
| "keeps_GEO_API (Request r) = True"

text \<open>The environment after the events of the server.\<close>

fun env_after :: "environment \<Rightarrow> server_event list \<Rightarrow> environment" where
  "env_after env [] = env"
| "env_after env (Setenv name v # es) = env_after (env(name := v)) es"
| "env_after env (Request r # es) = env_after env es"

text \<open>A history in which a commit lies between any two clicks on "Locate Image"; \<open>clicked\<close>
  says that there has been a click since the last commit.\<close>

fun commit_between_clicks :: "bool \<Rightarrow> action list \<Rightarrow> bool" where
  "commit_between_clicks clicked [] = True"
| "commit_between_clicks clicked (Commit # as) = commit_between_clicks False as"
| "commit_between_clicks clicked (Dispatch LocateClick # as) = (\<not> clicked \<and> commit_between_clicks True as)"
| "commit_between_clicks clicked (Dispatch (FileChange files url) # as) = commit_between_clicks clicked as"
| "commit_between_clicks clicked (Dispatch (GlobalPaste files url) # as) = commit_between_clicks clicked as"
| "commit_between_clicks clicked (Dispatch (PasteClick clipboardItems url) # as) = commit_between_clicks clicked as"
| "commit_between_clicks clicked (Dispatch (Settled r) # as) = commit_between_clicks clicked as"

text \<open>The error is one of the two messages of \<open>onPasteClick\<close> (lines 69 and 72).\<close>

definition paste_error :: "page \<Rightarrow> bool" where
  "paste_error s =
     (error s = Some ''No image found in clipboard.'' \<or> error s = Some ''Clipboard access denied. Try Ctrl+V.'')"

text \<open>Invariants of the page.\<close>

definition one_request :: "page \<Rightarrow> bool" where
  "one_request s = (length (pending s) \<le> 1 \<and> loading s = (pending s \<noteq> []))"

definition settled_page :: "page \<Rightarrow> bool" where
  "settled_page s = (one_request s \<and> (loading s \<longrightarrow> result s = JNull)
     \<and> (error s \<noteq> None \<and> (loading s \<or> result s \<noteq> JNull) \<longrightarrow> paste_error s))"

definition in_step :: "bool \<Rightarrow> display \<Rightarrow> bool" where
  "in_step clicked d = (settled_page (latest d) \<and> settled_page (rendered d)
     \<and> (\<not> clicked \<and> loading (latest d) \<longrightarrow> loading (rendered d)))"

text \<open>The page after the history \<open>as\<close> once the oldest pending request has settled with \<open>r\<close>.\<close>

definition settle_pending :: "action list \<Rightarrow> response fetched \<Rightarrow> page" where
  "settle_pending as r = latest (act (play as) (Dispatch (Settled r)))"

text \<open>Values for the examples.\<close>

definition photo :: file_obj where
  "photo = \<lparr>file_name = ''photo.png'', file_type = ''image/png'', file_bytes = [137, 80, 78, 71]\<rparr>"

definition other_photo :: file_obj where
  "other_photo = \<lparr>file_name = ''other.jpg'', file_type = ''image/jpeg'', file_bytes = [255, 216, 255]\<rparr>"

definition upload :: form_data where
  "upload = [(''file'', FileEntry photo)]"

definition env0 :: environment where
  "env0 = [''GEO_API'' \<mapsto> ''http://geo:8000'']"

definition paris :: json where
  "paris = JObj [(''lat'', JNum (num_lit 488566 (- 4))), (''lon'', JNum (num_lit 23522 (- 4))),
                 (''confidence'', JNum (num_lit 87 (- 2)))]"

definition selected :: page where
  "selected = run [FileChange (Some [photo]) ''blob:1'']"

text \<open>The reply of the backend with status 500 and body \<open>{"error":"model unavailable"}\<close>, and
  the response to the page with that status and body.\<close>

definition model_unavailable :: upstream where
  "model_unavailable =
     \<lparr>up_status = 500, up_text = Inr ''{\"error\":\"model unavailable\"}'',
      up_json = Inr (JObj [(''error'', JStr ''model unavailable'')])\<rparr>"

definition unavailable_response :: response where
  "unavailable_response = \<lparr>res_status = 500, res_json = Inr (JObj [(''error'', JStr ''model unavailable'')])\<rparr>"

text \<open>A successful reply with the body \<open>{lat: 48.8566, lon: 2.3522, confidence: 0.87}\<close>.\<close>

definition paris_response :: response where
  "paris_response = \<lparr>res_status = 200, res_json = Inr paris\<rparr>"

definition paris_upstream :: upstream where
  "paris_upstream =
     \<lparr>up_status = 200, up_text = Inr ''{\"lat\":48.8566,\"lon\":2.3522,\"confidence\":0.87}'',
      up_json = Inr paris\<rparr>"

section \<open>Properties of the page\<close>

lemma handleFileSelection_fields [simp]:
  "loading (handleFileSelection f url s) = loading s"
  "pending (handleFileSelection f url s) = pending s"
  "result (handleFileSelection f url s) = JNull"
  "error (handleFileSelection f url s) = None"
  "imageFile (handleFileSelection f url s) = Some f"
  "previewUrl (handleFileSelection f url s) = Some url"
  by (simp_all add: handleFileSelection_def)

lemma paste_items_request [simp]:
  "loading (paste_items items url s) = loading s"
  "pending (paste_items items url s) = pending s"
  by (induction items) (auto simp: clipboard_denied_def split: option.splits sum.splits prod.splits)

lemma selection_request:
  "loading (onFileChange files url s) = loading s"
  "pending (onFileChange files url s) = pending s"
  "loading (handleGlobalPaste files url s) = loading s"
  "pending (handleGlobalPaste files url s) = pending s"
  "loading (onPasteClick c url s) = loading s"
  "pending (onPasteClick c url s) = pending s"
  by (auto simp: onFileChange_def handleGlobalPaste_def onPasteClick_def clipboard_denied_def
      split: option.splits list.splits sum.splits)

lemma handleLocate_settled_request [simp]:
  "loading (handleLocate_settled r s) = False"
  "pending (handleLocate_settled r s) = pending s"
  by (auto simp: handleLocate_settled_def split: sum.splits)

lemma step_simps [simp]:
  "step s (FileChange files url) = onFileChange files url s"
  "step s (GlobalPaste files url) = handleGlobalPaste files url s"
  "step s (PasteClick clipboardItems url) = onPasteClick clipboardItems url s"
  "step s LocateClick = (if imageFile s = None \<or> loading s then s else handleLocate s s)"
  "step s (Settled r) =
     (case pending s of [] \<Rightarrow> s | request # rest \<Rightarrow> handleLocate_settled r (s\<lparr>pending := rest\<rparr>))"
  by (simp_all add: step_def)

lemma step_one_request: "one_request s \<Longrightarrow> one_request (step s e)"
proof (cases e)
  case LocateClick
  assume "one_request s"
  then show ?thesis using LocateClick
    by (auto simp: one_request_def handleLocate_def split: option.splits)
next
  case (Settled r)
  assume "one_request s"
  then show ?thesis using Settled
    by (cases "pending s") (auto simp: one_request_def)
qed (auto simp: one_request_def selection_request)

lemma foldl_one_request: "one_request s \<Longrightarrow> one_request (foldl step s evs)"
  by (induction evs arbitrary: s) (auto simp: step_one_request)

lemma run_one_request: "one_request (run evs)"
  unfolding run_def by (rule foldl_one_request) (simp add: one_request_def initial_def)

lemma paste_items_image:
  "pastes_image items \<Longrightarrow> result (paste_items items url s) = JNull \<and> error (paste_items items url s) = None"
  by (induction items) (auto split: option.splits sum.splits prod.splits)

lemma paste_items_failed:
  "\<not> pastes_image items \<Longrightarrow>
     result (paste_items items url s) = result s \<and> paste_error (paste_items items url s)"
  by (induction items)
     (auto simp: clipboard_denied_def paste_error_def split: option.splits sum.splits prod.splits)

lemma failed_paste_dispatch:
  assumes "failed_paste e"
  shows "paste_error (dispatch shown s e) \<and> result (dispatch shown s e) = result s
    \<and> loading (dispatch shown s e) = loading s \<and> pending (dispatch shown s e) = pending s"
  using assms paste_items_failed [of _ _ s]
  by (cases e rule: failed_paste.cases) (auto simp: onPasteClick_def clipboard_denied_def paste_error_def)

lemma selection_settled:
  assumes "settled_page s"
  shows "settled_page (handleFileSelection f url s)"
  using assms by (simp add: settled_page_def one_request_def)

lemma paste_settled:
  assumes "settled_page s"
  shows "settled_page (onPasteClick c url s)"
proof (cases "failed_paste (PasteClick c url)")
  case True
  from failed_paste_dispatch [OF this, of s s] assms show ?thesis
    by (simp add: settled_page_def one_request_def)
next
  case False
  then obtain items where c: "c = Inr items" and image: "pastes_image items"
    by (cases c) auto
  from paste_items_image [OF image, of url s] assms show ?thesis
    by (simp add: c onPasteClick_def settled_page_def one_request_def)
qed

lemma settle_settled:
  assumes "settled_page s"
  shows "settled_page (dispatch shown s (Settled r))"
proof (cases "pending s")
  case Nil
  with assms show ?thesis by simp
next
  case (Cons request rest)
  with assms have "rest = []" and "loading s" and "result s = JNull"
    by (auto simp: settled_page_def one_request_def)
  with assms Cons show ?thesis
    by (auto simp: settled_page_def one_request_def handleLocate_settled_def paste_error_def
        split: sum.splits)
qed

lemma other_settled:
  assumes "settled_page s" and "e \<noteq> LocateClick"
  shows "settled_page (dispatch shown s e)"
proof (cases e)
  case (FileChange files url)
  with assms(1) selection_settled show ?thesis
    by (auto simp: onFileChange_def split: option.splits list.splits)
next
  case (GlobalPaste files url)
  with assms(1) selection_settled show ?thesis
    by (auto simp: handleGlobalPaste_def split: option.splits list.splits)
next
  case (PasteClick c url)
  with assms(1) paste_settled show ?thesis by simp
next
  case LocateClick
  with assms(2) show ?thesis by simp
next
  case (Settled r)
  with assms(1) settle_settled show ?thesis by simp
qed

lemma other_loading:
  assumes "e \<noteq> LocateClick" and "loading (dispatch shown s e)"
  shows "loading s"
  using assms by (cases e) (auto simp: selection_request split: list.splits)

lemma commit_in_step: "in_step clicked d \<Longrightarrow> in_step False (act d Commit)"
  by (simp add: in_step_def)

lemma click_in_step:
  assumes "in_step False d"
  shows "in_step True (act d (Dispatch LocateClick))"
proof (cases "imageFile (rendered d) = None \<or> loading (rendered d)")
  case True
  with assms show ?thesis by (simp add: in_step_def)
next
  case False
  with assms have "\<not> loading (latest d)" and "pending (latest d) = []"
    by (auto simp: in_step_def settled_page_def one_request_def)
  with assms False show ?thesis
    by (auto simp: in_step_def settled_page_def one_request_def handleLocate_def)
qed

lemma other_in_step:
  assumes "in_step clicked d" and "e \<noteq> LocateClick"
  shows "in_step clicked (act d (Dispatch e))"
  using assms other_settled [of "latest d" e "rendered d"] other_loading [of e "rendered d" "latest d"]
  by (auto simp: in_step_def)

lemma foldl_in_step:
  "in_step clicked d \<Longrightarrow> commit_between_clicks clicked as \<Longrightarrow>
   settled_page (latest (foldl act d as)) \<and> settled_page (rendered (foldl act d as))"
proof (induction clicked as arbitrary: d rule: commit_between_clicks.induct)
  case (1 clicked)
  then show ?case by (simp add: in_step_def)
next
  case (2 clicked as)
  from "2.IH" [OF commit_in_step [OF "2.prems"(1)]] "2.prems"(2) show ?case by simp
next
  case (3 clicked as)
  from "3.prems" have "in_step False d" by simp
  from "3.IH" [OF click_in_step [OF this]] "3.prems"(2) show ?case by simp
next
  case (4 clicked files url as)
  have "in_step clicked (act d (Dispatch (FileChange files url)))"
    using "4.prems"(1) by (intro other_in_step) simp_all
  from "4.IH" [OF this] "4.prems"(2) show ?case by simp
next
  case (5 clicked files url as)
  have "in_step clicked (act d (Dispatch (GlobalPaste files url)))"
    using "5.prems"(1) by (intro other_in_step) simp_all
  from "5.IH" [OF this] "5.prems"(2) show ?case by simp
next
  case (6 clicked c url as)
  have "in_step clicked (act d (Dispatch (PasteClick c url)))"
    using "6.prems"(1) by (intro other_in_step) simp_all
  from "6.IH" [OF this] "6.prems"(2) show ?case by simp
next
  case (7 clicked r as)
  have "in_step clicked (act d (Dispatch (Settled r)))"
    using "7.prems"(1) by (intro other_in_step) simp_all
  from "7.IH" [OF this] "7.prems"(2) show ?case by simp
qed

lemma play_settled:
  assumes "commit_between_clicks False as"
  shows "settled_page (latest (play as))" and "settled_page (rendered (play as))"
proof -
  have "in_step False \<lparr>rendered = initial, latest = initial\<rparr>"
    by (simp add: in_step_def settled_page_def one_request_def initial_def)
  from foldl_in_step [OF this assms] show "settled_page (latest (play as))"
    and "settled_page (rendered (play as))"
    by (simp_all add: play_def)
qed

lemma settled_holds:
  assumes "settled_page s"
  shows "(\<exists>!q. holds q s) \<or> paste_error s"
proof (cases "paste_error s")
  case True
  then show ?thesis by simp
next
  case False
  define q where "q = (if loading s then Loading else if result s \<noteq> JNull then Success (result s)
     else case error s of None \<Rightarrow> Idle | Some m \<Rightarrow> Error m)"
  have "holds q s"
    using assms False by (auto simp: q_def settled_page_def split: option.splits)
  moreover have "q' = q" if "holds q' s" for q'
    using that assms False by (cases q') (auto simp: q_def settled_page_def split: option.splits)
  ultimately show ?thesis by blast
qed

lemma foldl_committed:
  "foldl act \<lparr>rendered = s, latest = s\<rparr> (concat (map (\<lambda>e. [Dispatch e, Commit]) evs))
     = \<lparr>rendered = foldl step s evs, latest = foldl step s evs\<rparr>"
  by (induction evs arbitrary: s) (simp_all add: step_def)

lemma run_play:
  "play (concat (map (\<lambda>e. [Dispatch e, Commit]) evs)) = \<lparr>rendered = run evs, latest = run evs\<rparr>"
  by (simp add: play_def run_def foldl_committed)

lemma committed_clicks:
  "commit_between_clicks False (concat (map (\<lambda>e. [Dispatch e, Commit]) evs))"
proof (induction evs)
  case Nil
  then show ?case by simp
next
  case (Cons e evs)
  then show ?case by (cases e) simp_all
qed

lemma run_settled: "settled_page (run evs)"
  using play_settled(1) [OF committed_clicks [of evs]] by (simp add: run_play)

lemma selected_page:
  "selected = \<lparr>imageFile = Some photo, previewUrl = Some ''blob:1'', loading = False, result = JNull,
               error = None, pending = []\<rparr>"
  by (simp add: selected_def run_def initial_def onFileChange_def handleFileSelection_def)

lemma located_page:
  "step selected LocateClick =
     \<lparr>imageFile = Some photo, previewUrl = Some ''blob:1'', loading = True, result = JNull,
      error = None, pending = [upload]\<rparr>"
  by (simp add: selected_page handleLocate_def upload_def)

lemma selected_play:
  "play [Dispatch (FileChange (Some [photo]) ''blob:1''), Commit] = \<lparr>rendered = selected, latest = selected\<rparr>"
  using run_play [of "[FileChange (Some [photo]) ''blob:1'']"] by (simp add: selected_def)

lemma play_append: "play (as @ bs) = foldl act (play as) bs"
  by (simp add: play_def)




text \<open>
  C4, as stated: in every reachable state exactly one of Idle, Loading, Success, Error holds,
  and an error and a result are never displayed together. It fails: a click on Paste with
  no image in the clipboard sets the error and leaves a displayed result as it is; and of
  two requests sent by two clicks before a commit, one can set the error and the other the
  result.
\<close>

theorem C4_counterexample:
  "holds (Success paris)
     (run [FileChange (Some [photo]) ''blob:1'', LocateClick,
           Settled (Resolved \<lparr>res_status = 200, res_json = Inr paris\<rparr>), PasteClick (Inr []) ''blob:2''])
   \<and> holds (Error ''No image found in clipboard.'')
     (run [FileChange (Some [photo]) ''blob:1'', LocateClick,
           Settled (Resolved \<lparr>res_status = 200, res_json = Inr paris\<rparr>), PasteClick (Inr []) ''blob:2''])
   \<and> result_shown
     (run [FileChange (Some [photo]) ''blob:1'', LocateClick,
           Settled (Resolved \<lparr>res_status = 200, res_json = Inr paris\<rparr>), PasteClick (Inr []) ''blob:2''])
   \<and> error_banner
     (run [FileChange (Some [photo]) ''blob:1'', LocateClick,
           Settled (Resolved \<lparr>res_status = 200, res_json = Inr paris\<rparr>), PasteClick (Inr []) ''blob:2''])
     = Some ''No image found in clipboard.''
   \<and> holds (Success paris)
     (latest (play [Dispatch (FileChange (Some [photo]) ''blob:1''), Commit, Dispatch LocateClick,
        Dispatch LocateClick, Dispatch (Settled (Rejected ''Failed to fetch'')),
        Dispatch (Settled (Resolved \<lparr>res_status = 200, res_json = Inr paris\<rparr>))]))
   \<and> holds (Error ''Failed to fetch'')
     (latest (play [Dispatch (FileChange (Some [photo]) ''blob:1''), Commit, Dispatch LocateClick,
        Dispatch LocateClick, Dispatch (Settled (Rejected ''Failed to fetch'')),
        Dispatch (Settled (Resolved \<lparr>res_status = 200, res_json = Inr paris\<rparr>))]))"
proof -
  have "run [FileChange (Some [photo]) ''blob:1'', LocateClick,
           Settled (Resolved \<lparr>res_status = 200, res_json = Inr paris\<rparr>), PasteClick (Inr []) ''blob:2'']
    = step (step (step selected LocateClick) (Settled (Resolved \<lparr>res_status = 200, res_json = Inr paris\<rparr>)))
        (PasteClick (Inr []) ''blob:2'')"
    by (simp add: run_def selected_def)
  moreover have "play ([Dispatch (FileChange (Some [photo]) ''blob:1''), Commit] @ bs)
      = foldl act \<lparr>rendered = selected, latest = selected\<rparr> bs" for bs
    unfolding play_append selected_play ..
  from this [of "[Dispatch LocateClick, Dispatch LocateClick, Dispatch (Settled (Rejected ''Failed to fetch'')),
        Dispatch (Settled (Resolved \<lparr>res_status = 200, res_json = Inr paris\<rparr>))]"]
  have "latest (play [Dispatch (FileChange (Some [photo]) ''blob:1''), Commit, Dispatch LocateClick,
        Dispatch LocateClick, Dispatch (Settled (Rejected ''Failed to fetch'')),
        Dispatch (Settled (Resolved \<lparr>res_status = 200, res_json = Inr paris\<rparr>))])
     = \<lparr>imageFile = Some photo, previewUrl = Some ''blob:1'', loading = False, result = paris,
        error = Some ''Failed to fetch'', pending = []\<rparr>"
    by (simp add: selected_page handleLocate_def handleLocate_settled_def handleLocate_try_def ok_def)
  ultimately show ?thesis
    unfolding located_page
    by (simp add: handleLocate_settled_def handleLocate_try_def ok_def onPasteClick_def
        result_shown_def error_banner_def paris_def)
qed

text \<open>
  C4, amended: in every state reached by a history in which React commits between any two
  clicks on "Locate Image", in its latest state and in the rendered one, exactly one of the
  four request states holds unless the error is one of the two messages of a failed click
  on Paste, and the rendered page shows an error banner together with a result only when
  the error is one of those two messages; such a click sets that error and leaves the
  result, the loading flag and the pending requests as they are, so that its error can be
  displayed together with a result or while loading. This covers every history of events that each meet a page that has
  rendered its state.
\<close>

theorem C4_amended:
  "(commit_between_clicks False as \<longrightarrow>
      ((\<exists>!q. holds q (latest (play as))) \<or> paste_error (latest (play as)))
      \<and> ((\<exists>!q. holds q (rendered (play as))) \<or> paste_error (rendered (play as)))
      \<and> (\<not> paste_error (rendered (play as)) \<longrightarrow>
           error_banner (rendered (play as)) = None \<or> \<not> result_shown (rendered (play as))))
   \<and> ((\<exists>!q. holds q (run evs)) \<or> paste_error (run evs))
   \<and> (failed_paste e \<longrightarrow>
        paste_error (dispatch shown s e) \<and> result (dispatch shown s e) = result s
        \<and> loading (dispatch shown s e) = loading s \<and> pending (dispatch shown s e) = pending s)"
proof -
  have "((\<exists>!q. holds q (latest (play as))) \<or> paste_error (latest (play as)))
      \<and> ((\<exists>!q. holds q (rendered (play as))) \<or> paste_error (rendered (play as)))
      \<and> (\<not> paste_error (rendered (play as)) \<longrightarrow>
           error_banner (rendered (play as)) = None \<or> \<not> result_shown (rendered (play as)))"
    if "commit_between_clicks False as"
  proof -
    have "error_banner (rendered (play as)) = None \<or> \<not> result_shown (rendered (play as))"
      if "\<not> paste_error (rendered (play as))"
      using play_settled(2) [OF \<open>commit_between_clicks False as\<close>] that
      by (cases "result (rendered (play as)) = JNull")
         (auto simp: settled_page_def error_banner_def result_shown_def)
    with play_settled [OF \<open>commit_between_clicks False as\<close>] settled_holds show ?thesis
      by blast
  qed
  moreover have "(\<exists>!q. holds q (run evs)) \<or> paste_error (run evs)"
    by (rule settled_holds [OF run_settled])
  ultimately show ?thesis
    using failed_paste_dispatch [of e shown s] by blast
qed

theorem C4_amended_witness:
  "commit_between_clicks False
     [Dispatch (PasteClick (Inr []) ''blob:0''), Dispatch (FileChange (Some [photo]) ''blob:1''), Commit,
      Dispatch LocateClick, Commit]
   \<and> \<not> paste_error (latest (play
     [Dispatch (PasteClick (Inr []) ''blob:0''), Dispatch (FileChange (Some [photo]) ''blob:1''), Commit,
      Dispatch LocateClick, Commit]))
   \<and> (\<exists>!q. holds q (latest (play
     [Dispatch (PasteClick (Inr []) ''blob:0''), Dispatch (FileChange (Some [photo]) ''blob:1''), Commit,
      Dispatch LocateClick, Commit])))
   \<and> holds Loading (latest (play
     [Dispatch (PasteClick (Inr []) ''blob:0''), Dispatch (FileChange (Some [photo]) ''blob:1''), Commit,
      Dispatch LocateClick, Commit]))
   \<and> failed_paste (PasteClick (Inr []) ''blob:2'')
   \<and> paste_error (dispatch selected selected (PasteClick (Inr []) ''blob:2''))
   \<and> result (dispatch selected selected (PasteClick (Inr []) ''blob:2'')) = result selected
   \<and> loading (dispatch selected selected (PasteClick (Inr []) ''blob:2'')) = loading selected"
proof -
  have latest: "latest (play
     [Dispatch (PasteClick (Inr []) ''blob:0''), Dispatch (FileChange (Some [photo]) ''blob:1''), Commit,
      Dispatch LocateClick, Commit])
    = \<lparr>imageFile = Some photo, previewUrl = Some ''blob:1'', loading = True, result = JNull,
       error = None, pending = [upload]\<rparr>"
    by (simp add: play_def initial_def onPasteClick_def onFileChange_def handleFileSelection_def
        handleLocate_def upload_def)
  have "commit_between_clicks False
     [Dispatch (PasteClick (Inr []) ''blob:0''), Dispatch (FileChange (Some [photo]) ''blob:1''), Commit,
      Dispatch LocateClick, Commit]"
    and "failed_paste (PasteClick (Inr []) ''blob:2'')"
    by simp_all
  moreover have "\<not> paste_error \<lparr>imageFile = Some photo, previewUrl = Some ''blob:1'', loading = True,
      result = JNull, error = None, pending = [upload]\<rparr>"
    and "holds Loading \<lparr>imageFile = Some photo, previewUrl = Some ''blob:1'', loading = True,
      result = JNull, error = None, pending = [upload]\<rparr>"
    by (simp_all add: paste_error_def)
  ultimately show ?thesis
    using C4_amended [of "[Dispatch (PasteClick (Inr []) ''blob:0''),
        Dispatch (FileChange (Some [photo]) ''blob:1''), Commit, Dispatch LocateClick, Commit]"
        "[]" "PasteClick (Inr []) ''blob:2''" selected selected]
    unfolding latest by blast
qed

section \<open>Properties of the proxy\<close>

lemma no_file_uploaded_reply:
  "no_file_uploaded = Inr \<lparr>status = 400, body = JObj [(''error'', JStr ''No file uploaded'')]\<rparr>"
  by (simp add: no_file_uploaded_def NextResponse_json_def)

lemma POST_no_file:
  "(case form_get formData ''file'' of None \<Rightarrow> True | Some v \<Rightarrow> falsy v) \<Longrightarrow>
   POST env fetch (Inr formData) =
     \<lparr>returned = \<lparr>status = 400, body = JObj [(''error'', JStr ''No file uploaded'')]\<rparr>, fetches = []\<rparr>"
  by (auto simp: POST_def POST_try_def no_file_uploaded_reply split: option.splits)

lemma POST_try_forwards:
  "form_get formData ''file'' = Some v \<Longrightarrow> \<not> falsy v \<Longrightarrow>
   snd (POST_try env fetch (Inr formData)) = [(geolocate_url (env ''GEO_API''), [(''file'', v)])]"
  by (auto simp: POST_try_def Let_def split: fetched.splits sum.splits)

lemma POST_fetches: "fetches (POST env fetch request) = snd (POST_try env fetch request)"
  by (auto simp: POST_def split: prod.splits sum.splits)

lemma POST_forwards:
  "form_get formData ''file'' = Some v \<Longrightarrow> \<not> falsy v \<Longrightarrow>
   fetches (POST env fetch (Inr formData)) = [(geolocate_url (env ''GEO_API''), [(''file'', v)])]"
  by (simp add: POST_fetches POST_try_forwards)

lemma POST_thrown:
  "fst (POST_try env fetch request) = Inl e \<Longrightarrow>
   returned (POST env fetch request) =
     \<lparr>status = 500, body = JObj [(''error'', JStr ''Internal Server Error''), (''details'', JStr e)]\<rparr>"
  by (auto simp: POST_def split: prod.splits sum.splits)

lemma POST_try_rejected:
  "form_get formData ''file'' = Some v \<Longrightarrow> \<not> falsy v \<Longrightarrow>
   fetch (geolocate_url (env ''GEO_API'')) [(''file'', v)] = Rejected e \<Longrightarrow>
   fst (POST_try env fetch (Inr formData)) = Inl e"
  by (simp add: POST_try_def)

lemma POST_try_url:
  "c \<in> set (snd (POST_try env fetch request)) \<Longrightarrow> fst c = geolocate_url (env ''GEO_API'')"
  by (auto simp: POST_try_def Let_def split: sum.splits option.splits if_splits fetched.splits)

lemma serve_url:
  "list_all keeps_GEO_API es \<Longrightarrow> h \<in> set (serve env fetch es) \<Longrightarrow> c \<in> set (fetches h) \<Longrightarrow>
   fst c = geolocate_url (env ''GEO_API'')"
proof (induction env fetch es rule: serve.induct)
  case (1 env fetch)
  then show ?case by simp
next
  case (2 env fetch name v es)
  from "2.prems" have keep: "name \<noteq> ''GEO_API''" and rest: "list_all keeps_GEO_API es"
    by simp_all
  from "2.prems" have "h \<in> set (serve (env(name := v)) fetch es)" by simp
  from "2.IH" [OF rest this "2.prems"(3)] keep show ?case by simp
next
  case (3 env fetch r es)
  then show ?case by (auto simp: POST_fetches dest: POST_try_url)
qed

lemma POST_passes_status:
  assumes "form_get formData ''file'' = Some v" and "\<not> falsy v"
    and "fetch (geolocate_url (env ''GEO_API'')) [(''file'', v)] = Resolved r"
    and "\<not> ok (up_status r)" and "200 \<le> up_status r" and "up_status r \<le> 599"
    and "up_status r \<noteq> 304" and "up_text r = Inr t"
  shows "returned (POST env fetch (Inr formData)) =
     \<lparr>status = up_status r, body = JObj [(''error'', JStr (''GeoAPI error: '' @ t))]\<rparr>"
  using assms by (auto simp: POST_def POST_try_def ok_def NextResponse_json_def)

lemma serve_append:
  "serve env fetch (es @ es') = serve env fetch es @ serve (env_after env es) fetch es'"
proof (induction es arbitrary: env)
  case Nil
  then show ?case by simp
next
  case (Cons a es)
  then show ?case by (cases a) (simp_all del: fun_upd_apply)
qed

lemma env_after_append: "env_after env (es @ es') = env_after (env_after env es) es'"
proof (induction es arbitrary: env)
  case Nil
  then show ?case by simp
next
  case (Cons a es)
  then show ?case by (cases a) (simp_all del: fun_upd_apply)
qed

lemma env_after_keeps: "list_all keeps_GEO_API es \<Longrightarrow> env_after env es ''GEO_API'' = env ''GEO_API''"
proof (induction es arbitrary: env)
  case Nil
  then show ?case by simp
next
  case (Cons a es)
  then show ?case by (cases a) (auto simp del: fun_upd_apply simp add: fun_upd_same fun_upd_other)
qed

lemma upload_file: "form_get upload ''file'' = Some (FileEntry photo)"
  by (simp add: upload_def form_get_def)

lemma env0_url: "geolocate_url (env0 ''GEO_API'') = ''http://geo:8000/geolocate''"
  by (simp add: env0_def geolocate_url_def)

lemma internal_error_message:
  "handleLocate_try (Resolved \<lparr>res_status = 500,
       res_json = Inr (JObj [(''error'', JStr ''Internal Server Error''), (''details'', JStr e)])\<rparr>)
   = Inl ''Internal Server Error''"
  by (simp add: handleLocate_try_def ok_def get_prop_def)




text \<open>
  C9, as stated: the backend base URL is read once at startup, so every request targets the
  same base URL whatever happens to the environment between requests. It fails: the handler
  reads \<open>process.env.GEO_API\<close> while it handles a request (line 15), so a request handled after
  the variable has changed goes to the new URL.
\<close>

theorem C9_counterexample:
  "map fetches (serve env0 (unreachable ''fetch failed'')
      [Request (Inr upload), Setenv ''GEO_API'' (Some ''http://other:9000''), Request (Inr upload)])
   = [[(''http://geo:8000/geolocate'', upload)], [(''http://other:9000/geolocate'', upload)]]"
proof -
  have "geolocate_url ((env0(''GEO_API'' \<mapsto> ''http://other:9000'')) ''GEO_API'') = ''http://other:9000/geolocate''"
    by (simp add: geolocate_url_def)
  then show ?thesis
    by (simp add: POST_forwards [OF upload_file] env0_url) (simp add: upload_def)
qed

text \<open>
  C9, amended: the handler reads the backend base URL from the variable \<open>GEO_API\<close> of its
  environment each time it handles a request. Every call made for a request goes to the
  value the variable has at that moment, followed by \<open>/geolocate\<close>: a request handled after the
  variable has been set goes to the new value, and as long as the variable is not set or
  unset between requests all calls go to the same URL.
\<close>

theorem C9_amended:
  "serve env fetch (es @ [Request r]) = serve env fetch es @ [POST (env_after env es) fetch r]
   \<and> list_all (\<lambda>c. fst c = geolocate_url (env_after env es ''GEO_API''))
        (fetches (POST (env_after env es) fetch r))
   \<and> (form_get formData ''file'' = Some v \<and> \<not> falsy v \<longrightarrow>
        fetches (POST (env_after env es) fetch (Inr formData))
          = [(geolocate_url (env_after env es ''GEO_API''), [(''file'', v)])])
   \<and> env_after env (es @ [Setenv ''GEO_API'' u]) ''GEO_API'' = u
   \<and> (list_all keeps_GEO_API es' \<longrightarrow>
        env_after env es' ''GEO_API'' = env ''GEO_API''
        \<and> list_all (\<lambda>h. list_all (\<lambda>c. fst c = geolocate_url (env ''GEO_API'')) (fetches h))
             (serve env fetch es'))"
proof -
  have "list_all (\<lambda>c. fst c = geolocate_url (env_after env es ''GEO_API''))
        (fetches (POST (env_after env es) fetch r))"
    using POST_try_url [of _ "env_after env es" fetch r] by (auto simp: list_all_iff POST_fetches)
  moreover have "list_all (\<lambda>h. list_all (\<lambda>c. fst c = geolocate_url (env ''GEO_API'')) (fetches h))
             (serve env fetch es')" if "list_all keeps_GEO_API es'"
    using that serve_url [of es' _ env fetch] by (auto simp: list_all_iff)
  ultimately show ?thesis
    by (simp add: serve_append env_after_append env_after_keeps POST_forwards)
qed

theorem C9_amended_witness:
  "form_get upload ''file'' = Some (FileEntry photo) \<and> \<not> falsy (FileEntry photo)
   \<and> env_after env0 [Request (Inr upload), Setenv ''GEO_API'' (Some ''http://other:9000'')] ''GEO_API''
       = Some ''http://other:9000''
   \<and> map fetches (serve env0 (unreachable ''fetch failed'')
        ([Request (Inr upload), Setenv ''GEO_API'' (Some ''http://other:9000'')] @ [Request (Inr upload)]))
      = [[(''http://geo:8000/geolocate'', upload)], [(''http://other:9000/geolocate'', upload)]]
   \<and> list_all keeps_GEO_API [Request (Inr upload), Setenv ''PORT'' (Some ''3000''), Request (Inr upload)]
   \<and> map fetches (serve env0 (unreachable ''fetch failed'')
        [Request (Inr upload), Setenv ''PORT'' (Some ''3000''), Request (Inr upload)])
      = [[(''http://geo:8000/geolocate'', upload)], [(''http://geo:8000/geolocate'', upload)]]"
proof -
  have other: "geolocate_url (Some ''http://other:9000'') = ''http://other:9000/geolocate''"
    and port: "geolocate_url ((env0(''PORT'' \<mapsto> ''3000'')) ''GEO_API'') = ''http://geo:8000/geolocate''"
    by (simp_all add: geolocate_url_def env0_def)
  have first: "serve env0 (unreachable ''fetch failed'')
      [Request (Inr upload), Setenv ''GEO_API'' (Some ''http://other:9000'')]
      = [POST env0 (unreachable ''fetch failed'') (Inr upload)]"
    by simp
  from C9_amended [of env0 "unreachable ''fetch failed''"
      "[Request (Inr upload), Setenv ''GEO_API'' (Some ''http://other:9000'')]" "Inr upload" upload
      "FileEntry photo" "Some ''http://other:9000''"
      "[Request (Inr upload), Setenv ''PORT'' (Some ''3000''), Request (Inr upload)]"]
  show ?thesis
    unfolding first
    by (simp add: upload_file POST_forwards [OF upload_file] env0_url other port) (simp add: upload_def)
qed

text \<open>
  C10. A file field that is present with a falsy value, which for a form field is the empty
  string, is answered exactly as an absent one: status 400, "No file uploaded", no call of
  the backend. A non-empty string passes the guard and is forwarded as it is, and so is a
  file of any media type: the handler checks neither that the value is a file nor its type.
\<close>

theorem C10_falsy_file_field:
  "(form_get formData ''file'' = Some v \<and> falsy v \<longrightarrow>
      v = TextEntry []
      \<and> POST env fetch (Inr formData) = POST env fetch (Inr [])
      \<and> POST env fetch (Inr formData) =
          \<lparr>returned = \<lparr>status = 400, body = JObj [(''error'', JStr ''No file uploaded'')]\<rparr>, fetches = []\<rparr>)
   \<and> (form_get formData' ''file'' = Some (TextEntry t) \<and> t \<noteq> [] \<longrightarrow>
      fetches (POST env fetch (Inr formData')) = [(geolocate_url (env ''GEO_API''), [(''file'', TextEntry t)])])
   \<and> (form_get formData'' ''file'' = Some (FileEntry f) \<longrightarrow>
      fetches (POST env fetch (Inr formData'')) = [(geolocate_url (env ''GEO_API''), [(''file'', FileEntry f)])])"
proof -
  have "POST env fetch (Inr formData) =
      \<lparr>returned = \<lparr>status = 400, body = JObj [(''error'', JStr ''No file uploaded'')]\<rparr>, fetches = []\<rparr>"
    if "form_get formData ''file'' = Some v" "falsy v"
    using that by (intro POST_no_file) simp
  moreover have "POST env fetch (Inr []) =
      \<lparr>returned = \<lparr>status = 400, body = JObj [(''error'', JStr ''No file uploaded'')]\<rparr>, fetches = []\<rparr>"
    by (intro POST_no_file) (simp add: form_get_def)
  moreover have "v = TextEntry []" if "falsy v"
    using that by (cases v) auto
  moreover have "fetches (POST env fetch (Inr formData')) = [(geolocate_url (env ''GEO_API''), [(''file'', TextEntry t)])]"
    if "form_get formData' ''file'' = Some (TextEntry t)" "t \<noteq> []"
    using that by (intro POST_forwards) simp_all
  moreover have "fetches (POST env fetch (Inr formData'')) = [(geolocate_url (env ''GEO_API''), [(''file'', FileEntry f)])]"
    if "form_get formData'' ''file'' = Some (FileEntry f)"
    using that by (intro POST_forwards) simp_all
  ultimately show ?thesis by simp
qed

theorem C10_witness:
  "form_get [(''note'', TextEntry ''x''), (''file'', TextEntry [])] ''file'' = Some (TextEntry [])
   \<and> falsy (TextEntry [])
   \<and> POST env0 (unreachable ''fetch failed'') (Inr [(''note'', TextEntry ''x''), (''file'', TextEntry [])])
       = \<lparr>returned = \<lparr>status = 400, body = JObj [(''error'', JStr ''No file uploaded'')]\<rparr>, fetches = []\<rparr>
   \<and> form_get [(''file'', TextEntry ''not a file'')] ''file'' = Some (TextEntry ''not a file'')
   \<and> fetches (POST env0 (unreachable ''fetch failed'') (Inr [(''file'', TextEntry ''not a file'')]))
       = [(''http://geo:8000/geolocate'', [(''file'', TextEntry ''not a file'')])]
   \<and> form_get [(''file'', FileEntry \<lparr>file_name = ''notes.txt'', file_type = ''text/plain'', file_bytes = [104, 105]\<rparr>)] ''file''
       = Some (FileEntry \<lparr>file_name = ''notes.txt'', file_type = ''text/plain'', file_bytes = [104, 105]\<rparr>)
   \<and> fetches (POST env0 (unreachable ''fetch failed'')
         (Inr [(''file'', FileEntry \<lparr>file_name = ''notes.txt'', file_type = ''text/plain'', file_bytes = [104, 105]\<rparr>)]))
       = [(''http://geo:8000/geolocate'',
           [(''file'', FileEntry \<lparr>file_name = ''notes.txt'', file_type = ''text/plain'', file_bytes = [104, 105]\<rparr>)])]"
  using C10_falsy_file_field [of "[(''note'', TextEntry ''x''), (''file'', TextEntry [])]" "TextEntry []"
      env0 "unreachable ''fetch failed''" "[(''file'', TextEntry ''not a file'')]" "''not a file''"
      "[(''file'', FileEntry \<lparr>file_name = ''notes.txt'', file_type = ''text/plain'', file_bytes = [104, 105]\<rparr>)]"
      "\<lparr>file_name = ''notes.txt'', file_type = ''text/plain'', file_bytes = [104, 105]\<rparr>"]
  by (auto simp: form_get_def env0_url)

section \<open>Properties of a submission\<close>

lemma ready_locate:
  assumes "imageFile (run evs) = Some f" and "\<not> loading (run evs)"
  shows "step (run evs) LocateClick =
     (run evs)\<lparr>loading := True, error := None, result := JNull, pending := [[(''file'', FileEntry f)]]\<rparr>"
proof -
  have "pending (run evs) = []"
    using run_one_request [of evs] assms(2) by (simp add: one_request_def)
  with assms show ?thesis by (simp add: handleLocate_def)
qed

lemma POST_upstream_error:
  assumes "form_get formData ''file'' = Some v" and "\<not> falsy v"
    and "fetch (geolocate_url (env ''GEO_API'')) [(''file'', v)] = Resolved r"
    and "up_status r = 500" and "up_text r = Inr t"
  shows "returned (POST env fetch (Inr formData)) =
     \<lparr>status = 500, body = JObj [(''error'', JStr (''GeoAPI error: '' @ t))]\<rparr>"
  using assms by (simp add: POST_def POST_try_def ok_def NextResponse_json_def)

lemma POST_upstream_success:
  assumes "form_get formData ''file'' = Some v" and "\<not> falsy v"
    and "fetch (geolocate_url (env ''GEO_API'')) [(''file'', v)] = Resolved r"
    and "ok (up_status r)" and "up_json r = Inr data"
  shows "returned (POST env fetch (Inr formData)) = \<lparr>status = 200, body = wire data\<rparr>"
  using assms by (simp add: POST_def POST_try_def NextResponse_json_def)

lemma settled_message:
  assumes "m \<noteq> []" and "\<not> ok st"
  shows "handleLocate_settled (Resolved \<lparr>res_status = st, res_json = Inr (JObj [(''error'', JStr m)])\<rparr>) s
    = s\<lparr>error := Some m, loading := False\<rparr>"
  using assms by (simp add: handleLocate_settled_def handleLocate_try_def get_prop_def)

lemma settled_data:
  assumes "ok st"
  shows "handleLocate_settled (Resolved \<lparr>res_status = st, res_json = Inr data\<rparr>) s
    = s\<lparr>result := data, loading := False\<rparr>"
  using assms by (simp add: handleLocate_settled_def handleLocate_try_def)

lemma locate_via_proxy_ready:
  assumes "imageFile (run evs) = Some f" and "\<not> loading (run evs)"
  shows "locate_via_proxy env fetch (run evs) =
     handleLocate_settled (via_proxy env fetch [(''file'', FileEntry f)])
       ((run evs)\<lparr>loading := True, error := None, result := JNull, pending := []\<rparr>)"
  unfolding locate_via_proxy_def ready_locate [OF assms] by (simp add: Let_def)

lemma settle_ready:
  assumes "imageFile (run evs) = Some f" and "\<not> loading (run evs)"
  shows "step (step (run evs) LocateClick) (Settled r) =
     handleLocate_settled r ((run evs)\<lparr>loading := True, error := None, result := JNull, pending := []\<rparr>)"
  unfolding ready_locate [OF assms] by simp

lemma selected_run: "selected = run [FileChange (Some [photo]) ''blob:1'']"
  by (simp add: selected_def)

lemma selected_ready: "imageFile selected \<noteq> None \<and> \<not> loading selected"
  by (simp add: selected_page)












section \<open>The texts of a result\<close>

lemma paris_latitude: "toFixed 5 (num_lit 488566 (- 4)) = ''48.85660''"
  by code_simp

lemma paris_longitude: "toFixed 5 (num_lit 23522 (- 4)) = ''2.35220''"
  by code_simp

lemma paris_confidence: "toFixed 1 (js_mul (num_lit 87 (- 2)) (Fin 100)) = ''87.0''"
  by code_simp

lemma paris_bar: "number_to_string (js_mul (num_lit 87 (- 2)) (Fin 100)) = ''87''"
  by code_simp

lemma paris_lat_string: "number_to_string (num_lit 488566 (- 4)) = ''48.8566''"
  by code_simp

lemma paris_lon_string: "number_to_string (num_lit 23522 (- 4)) = ''2.3522''"
  by code_simp

lemma wire_paris: "wire paris = paris"
  by code_simp

lemma paris_panel:
  "result s = paris \<Longrightarrow> result_section s =
     Panel \<lparr>latitude = ''48.85660'', longitude = ''2.35220'', bar_width = ''87%'',
            confidence_text = ''87.0%'',
            map_href = ''https://www.google.com/maps/search/?api=1&query=48.8566,2.3522''\<rparr>"
  by (simp add: result_section_def result_shown_def number_field_def get_prop_def paris_def result_panel_def
      paris_latitude paris_longitude paris_confidence paris_bar paris_lat_string paris_lon_string
      del: One_nat_def)

lemma paris_link:
  "sublist ''48.8566,2.3522'' ''https://www.google.com/maps/search/?api=1&query=48.8566,2.3522''"
  by code_simp

text \<open>
  C5. After a submission answered with status 200 and the body
  \<open>{lat: 48.8566, lon: 2.3522, confidence: 0.87}\<close>, the results section shows the latitude
  "48.85660", the longitude "2.35220", the confidence "87.0%" and a map link whose URL
  contains "48.8566,2.3522"; the same holds when that answer is the backend's and reaches
  the page through the proxy. The numbers are binary64 values: 48.8566 and 0.87 are the
  values nearest to these decimals, and \<open>confidence * 100\<close> is rounded again.
\<close>

theorem C5_paris_display:
  "imageFile (run evs) \<noteq> None \<and> \<not> loading (run evs) \<longrightarrow>
     (\<exists>p. result_section (step (step (run evs) LocateClick) (Settled (Resolved paris_response))) = Panel p
        \<and> latitude p = ''48.85660'' \<and> longitude p = ''2.35220'' \<and> confidence_text p = ''87.0%''
        \<and> map_href p = ''https://www.google.com/maps/search/?api=1&query=48.8566,2.3522''
        \<and> sublist ''48.8566,2.3522'' (map_href p))
     \<and> (\<exists>p. result_section (locate_via_proxy env (replying paris_upstream) (run evs)) = Panel p
        \<and> latitude p = ''48.85660'' \<and> longitude p = ''2.35220'' \<and> confidence_text p = ''87.0%''
        \<and> map_href p = ''https://www.google.com/maps/search/?api=1&query=48.8566,2.3522''
        \<and> sublist ''48.8566,2.3522'' (map_href p))"
proof
  assume "imageFile (run evs) \<noteq> None \<and> \<not> loading (run evs)"
  then obtain f where ready: "imageFile (run evs) = Some f" "\<not> loading (run evs)"
    by auto
  have direct: "step (step (run evs) LocateClick) (Settled (Resolved paris_response))
      = (run evs)\<lparr>loading := True, error := None, result := JNull, pending := []\<rparr>
          \<lparr>result := paris, loading := False\<rparr>"
    unfolding settle_ready [OF ready] by (simp add: paris_response_def settled_data ok_def)
  have "returned (POST env (replying paris_upstream) (Inr [(''file'', FileEntry f)]))
      = \<lparr>status = 200, body = wire paris\<rparr>"
    using POST_upstream_success [where formData = "[(''file'', FileEntry f)]" and v = "FileEntry f"
        and env = env and fetch = "replying paris_upstream" and r = paris_upstream and data = paris]
    by (simp add: replying_def paris_upstream_def form_get_def ok_def)
  then have proxied: "locate_via_proxy env (replying paris_upstream) (run evs)
      = (run evs)\<lparr>loading := True, error := None, result := JNull, pending := []\<rparr>
          \<lparr>result := paris, loading := False\<rparr>"
    unfolding locate_via_proxy_ready [OF ready]
    by (simp add: via_proxy_def wire_paris settled_data ok_def)
  show "(\<exists>p. result_section (step (step (run evs) LocateClick) (Settled (Resolved paris_response))) = Panel p
        \<and> latitude p = ''48.85660'' \<and> longitude p = ''2.35220'' \<and> confidence_text p = ''87.0%''
        \<and> map_href p = ''https://www.google.com/maps/search/?api=1&query=48.8566,2.3522''
        \<and> sublist ''48.8566,2.3522'' (map_href p))
     \<and> (\<exists>p. result_section (locate_via_proxy env (replying paris_upstream) (run evs)) = Panel p
        \<and> latitude p = ''48.85660'' \<and> longitude p = ''2.35220'' \<and> confidence_text p = ''87.0%''
        \<and> map_href p = ''https://www.google.com/maps/search/?api=1&query=48.8566,2.3522''
        \<and> sublist ''48.8566,2.3522'' (map_href p))"
    unfolding direct proxied by (simp add: paris_panel paris_link)
qed

theorem C5_witness:
  "imageFile (run [FileChange (Some [photo]) ''blob:1'']) \<noteq> None
   \<and> \<not> loading (run [FileChange (Some [photo]) ''blob:1''])
   \<and> result_section (step (step (run [FileChange (Some [photo]) ''blob:1'']) LocateClick)
        (Settled (Resolved paris_response)))
      = Panel \<lparr>latitude = ''48.85660'', longitude = ''2.35220'', bar_width = ''87%'',
               confidence_text = ''87.0%'',
               map_href = ''https://www.google.com/maps/search/?api=1&query=48.8566,2.3522''\<rparr>"
proof -
  have ready: "imageFile (run [FileChange (Some [photo]) ''blob:1'']) \<noteq> None
      \<and> \<not> loading (run [FileChange (Some [photo]) ''blob:1''])"
    using selected_ready unfolding selected_run .
  then obtain p where shown:
    "result_section (step (step (run [FileChange (Some [photo]) ''blob:1'']) LocateClick)
        (Settled (Resolved paris_response))) = Panel p"
    and texts: "latitude p = ''48.85660''" "longitude p = ''2.35220''" "confidence_text p = ''87.0%''"
      "map_href p = ''https://www.google.com/maps/search/?api=1&query=48.8566,2.3522''"
    using C5_paris_display [of "[FileChange (Some [photo]) ''blob:1'']" env0] by blast
  have "result_section (step (step selected LocateClick) (Settled (Resolved paris_response)))
      = Panel \<lparr>latitude = ''48.85660'', longitude = ''2.35220'', bar_width = ''87%'',
               confidence_text = ''87.0%'',
               map_href = ''https://www.google.com/maps/search/?api=1&query=48.8566,2.3522''\<rparr>"
    unfolding located_page
    by (simp add: paris_response_def settled_data ok_def paris_panel)
  then have "result_section (step (step (run [FileChange (Some [photo]) ''blob:1'']) LocateClick)
        (Settled (Resolved paris_response)))
      = Panel \<lparr>latitude = ''48.85660'', longitude = ''2.35220'', bar_width = ''87%'',
               confidence_text = ''87.0%'',
               map_href = ''https://www.google.com/maps/search/?api=1&query=48.8566,2.3522''\<rparr>"
    unfolding selected_run .
  with ready shown texts show ?thesis by blast
qed

end
